theory Spec2Isabelle
  imports Complex_Main
begin

section \<open>JavaScript numbers\<close>

text \<open>
  The valuation module computes with JavaScript numbers. A number is modelled as a finite
  real or one of the three IEEE special values. The finite part is idealised: results of
  finite operations are exact reals (no rounding, no overflow to infinity) and the two
  zeros are identified. Everything else follows ECMAScript: arithmetic never throws,
  division by zero yields an infinity or NaN, NaN is absorbing, and \<open>Math.max\<close> returns NaN
  as soon as one argument is NaN.
\<close>

datatype number = Fin real | PInf | NInf | NaN

fun js_neg :: "number \<Rightarrow> number" where
  "js_neg (Fin a) = Fin (- a)"
| "js_neg PInf = NInf"
| "js_neg NInf = PInf"
| "js_neg NaN = NaN"

fun js_add :: "number \<Rightarrow> number \<Rightarrow> number" where
  "js_add NaN _ = NaN"
| "js_add _ NaN = NaN"
| "js_add (Fin a) (Fin b) = Fin (a + b)"
| "js_add (Fin a) PInf = PInf"
| "js_add (Fin a) NInf = NInf"
| "js_add PInf (Fin b) = PInf"
| "js_add NInf (Fin b) = NInf"
| "js_add PInf PInf = PInf"
| "js_add NInf NInf = NInf"
| "js_add PInf NInf = NaN"
| "js_add NInf PInf = NaN"

definition js_sub :: "number \<Rightarrow> number \<Rightarrow> number" where
  "js_sub a b = js_add a (js_neg b)"

fun js_mul :: "number \<Rightarrow> number \<Rightarrow> number" where
  "js_mul NaN _ = NaN"
| "js_mul _ NaN = NaN"
| "js_mul (Fin a) (Fin b) = Fin (a * b)"
| "js_mul (Fin a) PInf = (if a = 0 then NaN else if 0 < a then PInf else NInf)"
| "js_mul (Fin a) NInf = (if a = 0 then NaN else if 0 < a then NInf else PInf)"
| "js_mul PInf (Fin b) = (if b = 0 then NaN else if 0 < b then PInf else NInf)"
| "js_mul NInf (Fin b) = (if b = 0 then NaN else if 0 < b then NInf else PInf)"
| "js_mul PInf PInf = PInf"
| "js_mul NInf NInf = PInf"
| "js_mul PInf NInf = NInf"
| "js_mul NInf PInf = NInf"

fun js_div :: "number \<Rightarrow> number \<Rightarrow> number" where
  "js_div NaN _ = NaN"
| "js_div _ NaN = NaN"
| "js_div (Fin a) (Fin b) =
     (if b = 0 then (if a = 0 then NaN else if 0 < a then PInf else NInf)
      else Fin (a / b))"
| "js_div (Fin a) PInf = Fin 0"
| "js_div (Fin a) NInf = Fin 0"
| "js_div PInf (Fin b) = (if 0 \<le> b then PInf else NInf)"
| "js_div NInf (Fin b) = (if 0 \<le> b then NInf else PInf)"
| "js_div PInf PInf = NaN"
| "js_div NInf NInf = NaN"
| "js_div PInf NInf = NaN"
| "js_div NInf PInf = NaN"

text \<open>The relational operator \<open><=\<close>: every comparison with NaN is false.\<close>

fun js_le :: "number \<Rightarrow> number \<Rightarrow> bool" where
  "js_le NaN _ = False"
| "js_le _ NaN = False"
| "js_le (Fin a) (Fin b) = (a \<le> b)"
| "js_le NInf _ = True"
| "js_le _ PInf = True"
| "js_le PInf _ = False"
| "js_le _ NInf = False"

fun js_lt :: "number \<Rightarrow> number \<Rightarrow> bool" where
  "js_lt NaN _ = False"
| "js_lt _ NaN = False"
| "js_lt (Fin a) (Fin b) = (a < b)"
| "js_lt PInf _ = False"
| "js_lt _ NInf = False"
| "js_lt NInf _ = True"
| "js_lt _ PInf = True"

fun Math_max :: "number \<Rightarrow> number \<Rightarrow> number" where
  "Math_max NaN _ = NaN"
| "Math_max _ NaN = NaN"
| "Math_max PInf _ = PInf"
| "Math_max _ PInf = PInf"
| "Math_max NInf b = b"
| "Math_max a NInf = a"
| "Math_max (Fin a) (Fin b) = Fin (max a b)"

fun Math_abs :: "number \<Rightarrow> number" where
  "Math_abs (Fin a) = Fin \<bar>a\<bar>"
| "Math_abs PInf = PInf"
| "Math_abs NInf = PInf"
| "Math_abs NaN = NaN"

definition is_integral :: "real \<Rightarrow> bool" where
  "is_integral e = (e = of_int \<lfloor>e\<rfloor>)"

definition is_odd_integral :: "real \<Rightarrow> bool" where
  "is_odd_integral e = (is_integral e \<and> odd \<lfloor>e\<rfloor>)"

text \<open>
  \<open>Math.pow\<close>, case by case as ECMAScript's Number::exponentiate lists them. For a finite
  non-zero base and an integral exponent the value is the iterated product (or its
  reciprocal); for a positive base and a fractional exponent it is the real power.
\<close>

fun Math_pow :: "number \<Rightarrow> number \<Rightarrow> number" where
  "Math_pow b NaN = NaN"
| "Math_pow b (Fin e) =
     (if e = 0 then Fin 1
      else case b of
        NaN \<Rightarrow> NaN
      | PInf \<Rightarrow> (if 0 < e then PInf else Fin 0)
      | NInf \<Rightarrow> (if 0 < e then (if is_odd_integral e then NInf else PInf) else Fin 0)
      | Fin x \<Rightarrow>
          (if x = 0 then (if 0 < e then Fin 0 else PInf)
           else if is_integral e
             then Fin (if 0 < e then x ^ nat \<lfloor>e\<rfloor> else 1 / x ^ nat (- \<lfloor>e\<rfloor>))
           else if x < 0 then NaN
           else Fin (x powr e)))"
| "Math_pow b PInf =
     (case b of
        NaN \<Rightarrow> NaN
      | PInf \<Rightarrow> PInf
      | NInf \<Rightarrow> PInf
      | Fin x \<Rightarrow> (if 1 < \<bar>x\<bar> then PInf else if \<bar>x\<bar> = 1 then NaN else Fin 0))"
| "Math_pow b NInf =
     (case b of
        NaN \<Rightarrow> NaN
      | PInf \<Rightarrow> Fin 0
      | NInf \<Rightarrow> Fin 0
      | Fin x \<Rightarrow> (if 1 < \<bar>x\<bar> then Fin 0 else if \<bar>x\<bar> = 1 then NaN else PInf))"

text \<open>Truthiness of a number: \<open>0\<close> and NaN are falsy, everything else is truthy.\<close>

fun truthy :: "number \<Rightarrow> bool" where
  "truthy (Fin a) = (a \<noteq> 0)"
| "truthy PInf = True"
| "truthy NInf = True"
| "truthy NaN = False"

text \<open>
  A value of type \<open>number | null\<close> (or \<open>number | null | undefined\<close>) is a
  \<open>number option\<close>; \<open>None\<close> stands for null and undefined alike, which \<open>!\<close>, \<open>||\<close> and \<open>??\<close>
  do not tell apart. \<open>x || d\<close> yields \<open>d\<close> when \<open>x\<close> is falsy, \<open>x ?? d\<close> only when \<open>x\<close> is
  null or undefined.
\<close>

fun js_or :: "number option \<Rightarrow> number \<Rightarrow> number" where
  "js_or None d = d"
| "js_or (Some v) d = (if truthy v then v else d)"

fun js_nullish :: "number option \<Rightarrow> number \<Rightarrow> number" where
  "js_nullish None d = d"
| "js_nullish (Some v) d = v"

section \<open>Data model (types/stock.ts)\<close>

record FinancialMetrics =
  peRatio :: "number option"
  forwardPE :: "number option"
  pegRatio :: "number option"
  priceToSales :: "number option"
  priceToBook :: "number option"
  evToEbitda :: "number option"
  evToEbit :: "number option"
  evToRevenue :: "number option"
  grossMargin :: "number option"
  operatingMargin :: "number option"
  netMargin :: "number option"
  roe :: "number option"
  roa :: "number option"
  revenue :: "number option"
  netIncome :: "number option"
  ebitda :: "number option"
  ebit :: "number option"
  eps :: "number option"
  freeCashFlow :: "number option"
  totalCash :: "number option"
  totalDebt :: "number option"
  netDebt :: "number option"
  sharesOutstanding :: "number option"
  enterpriseValue :: "number option"

record PriceProjection =
  year :: number
  bearCase :: number
  baseCase :: number
  bullCase :: number

record Scenarios =
  bear :: number
  base :: number
  bull :: number

datatype MultipleType = Pe | EvEbit | EvEbitda | EvRevenue | EvFcf

text \<open>
  \<open>years\<close>, the projection horizon, is a number like every other field; the form seeds it
  with \<open>5\<close>.
\<close>

record ProjectionAssumptions =
  revenueGrowth :: Scenarios
  targetMargin :: Scenarios
  exitMultiple :: Scenarios
  multipleType :: MultipleType
  dilutionRate :: number
  years :: number

section \<open>The valuation engine (utils/valuation.ts)\<close>

fun calculateCAGR :: "number option \<Rightarrow> number option \<Rightarrow> number \<Rightarrow> number option" where
  "calculateCAGR None _ _ = None"
| "calculateCAGR _ None _ = None"
| "calculateCAGR (Some start) (Some end') years' =
     (if \<not> truthy start \<or> \<not> truthy end' \<or> js_le years' (Fin 0) \<or> js_le start (Fin 0)
      then None
      else Some (js_mul
                   (js_sub (Math_pow (js_div end' start) (js_div (Fin 1) years')) (Fin 1))
                   (Fin 100)))"

text \<open>
  The two locals computed first by \<open>calculateScenarioPrice\<close>: revenue and share count
  compounded over the horizon.
\<close>

definition projectedRevenue :: "number \<Rightarrow> number \<Rightarrow> number \<Rightarrow> number" where
  "projectedRevenue currentRevenue growthRate years' =
     js_mul currentRevenue (Math_pow (js_add (Fin 1) growthRate) years')"

definition projectedShares :: "number \<Rightarrow> number \<Rightarrow> number \<Rightarrow> number" where
  "projectedShares shares dilution years' =
     js_mul shares (Math_pow (js_add (Fin 1) dilution) years')"

text \<open>
  The \<open>switch\<close> on the methodology. \<open>MultipleType\<close> has exactly the five cases, so the
  \<open>default\<close> branch of the source is unreachable. \<open>13 / 10\<close> and \<open>12 / 10\<close> are the
  literals \<open>1.3\<close> and \<open>1.2\<close>.
\<close>

fun scenarioSwitch ::
  "MultipleType \<Rightarrow> number \<Rightarrow> number \<Rightarrow> number \<Rightarrow> number \<Rightarrow> FinancialMetrics \<Rightarrow> number" where
  "scenarioSwitch Pe pRevenue pShares targetMargin' exitMultiple' metrics =
     (let projectedNetIncome = js_mul pRevenue targetMargin'
      in js_div (js_mul projectedNetIncome exitMultiple') pShares)"
| "scenarioSwitch EvEbit pRevenue pShares targetMargin' exitMultiple' metrics =
     (let operatingMargin' = js_mul targetMargin' (Fin (13 / 10));
          projectedEbit = js_mul pRevenue operatingMargin';
          equityValue = js_sub (js_mul projectedEbit exitMultiple') (js_or (netDebt metrics) (Fin 0))
      in js_div equityValue pShares)"
| "scenarioSwitch EvEbitda pRevenue pShares targetMargin' exitMultiple' metrics =
     (let operatingMargin' = js_mul targetMargin' (Fin (13 / 10));
          projectedEbitda = js_mul (js_mul pRevenue operatingMargin') (Fin (12 / 10));
          equityValue = js_sub (js_mul projectedEbitda exitMultiple') (js_or (netDebt metrics) (Fin 0))
      in js_div equityValue pShares)"
| "scenarioSwitch EvRevenue pRevenue pShares targetMargin' exitMultiple' metrics =
     (let equityValue = js_sub (js_mul pRevenue exitMultiple') (js_or (netDebt metrics) (Fin 0))
      in js_div equityValue pShares)"
| "scenarioSwitch EvFcf pRevenue pShares targetMargin' exitMultiple' metrics =
     (let projectedFcf = js_mul pRevenue targetMargin';
          equityValue = js_sub (js_mul projectedFcf exitMultiple') (js_or (netDebt metrics) (Fin 0))
      in js_div equityValue pShares)"

definition calculateScenarioPrice ::
  "number \<Rightarrow> number \<Rightarrow> number \<Rightarrow> number \<Rightarrow> number \<Rightarrow> number \<Rightarrow> number \<Rightarrow> MultipleType
     \<Rightarrow> FinancialMetrics \<Rightarrow> number" where
  "calculateScenarioPrice currentRevenue shares growthRate targetMargin' exitMultiple'
       dilution years' multipleType' metrics =
     (let pRevenue = projectedRevenue currentRevenue growthRate years';
          pShares = projectedShares shares dilution years';
          price = scenarioSwitch multipleType' pRevenue pShares targetMargin' exitMultiple' metrics
      in Math_max (Fin 0) price)"

fun fairValueSwitch ::
  "MultipleType \<Rightarrow> number \<Rightarrow> number \<Rightarrow> number \<Rightarrow> number \<Rightarrow> FinancialMetrics \<Rightarrow> number" where
  "fairValueSwitch Pe currentRevenue shares targetMargin' exitMultiple' metrics =
     js_div (js_mul (js_mul currentRevenue targetMargin') exitMultiple') shares"
| "fairValueSwitch EvEbit currentRevenue shares targetMargin' exitMultiple' metrics =
     (let operatingMargin' = js_mul targetMargin' (Fin (13 / 10));
          equityValue = js_sub (js_mul (js_mul currentRevenue operatingMargin') exitMultiple')
                               (js_or (netDebt metrics) (Fin 0))
      in js_div equityValue shares)"
| "fairValueSwitch EvEbitda currentRevenue shares targetMargin' exitMultiple' metrics =
     (let operatingMargin' = js_mul targetMargin' (Fin (13 / 10));
          equityValue =
            js_sub (js_mul (js_mul (js_mul currentRevenue operatingMargin') (Fin (12 / 10)))
                           exitMultiple')
                   (js_or (netDebt metrics) (Fin 0))
      in js_div equityValue shares)"
| "fairValueSwitch EvRevenue currentRevenue shares targetMargin' exitMultiple' metrics =
     (let equityValue = js_sub (js_mul currentRevenue exitMultiple')
                               (js_or (netDebt metrics) (Fin 0))
      in js_div equityValue shares)"
| "fairValueSwitch EvFcf currentRevenue shares targetMargin' exitMultiple' metrics =
     (let fcfMargin = targetMargin';
          equityValue = js_sub (js_mul (js_mul currentRevenue fcfMargin) exitMultiple')
                               (js_or (netDebt metrics) (Fin 0))
      in js_div equityValue shares)"

definition calculateFairValuePrice ::
  "number \<Rightarrow> number \<Rightarrow> number \<Rightarrow> number \<Rightarrow> MultipleType \<Rightarrow> FinancialMetrics \<Rightarrow> number" where
  "calculateFairValuePrice currentRevenue shares targetMargin' exitMultiple' multipleType' metrics =
     Math_max (Fin 0)
       (fairValueSwitch multipleType' currentRevenue shares targetMargin' exitMultiple' metrics)"

text \<open>
  The record pushed in iteration \<open>i\<close> of the loop of \<open>calculateProjections\<close>;
  \<open>currentRevenue\<close> and \<open>shares\<close> are the two locals set before the loop. The loop counter
  is passed on as the \<open>years\<close> argument of \<open>calculateScenarioPrice\<close>.
\<close>

definition projectionEntry ::
  "number \<Rightarrow> number \<Rightarrow> FinancialMetrics \<Rightarrow> ProjectionAssumptions \<Rightarrow> number \<Rightarrow> number
     \<Rightarrow> PriceProjection" where
  "projectionEntry currentRevenue shares metrics assumptions currentYear i =
     \<lparr> year = js_add currentYear i,
       bearCase = calculateScenarioPrice currentRevenue shares
         (js_div (bear (revenueGrowth assumptions)) (Fin 100))
         (js_div (bear (targetMargin assumptions)) (Fin 100))
         (bear (exitMultiple assumptions)) (js_div (dilutionRate assumptions) (Fin 100))
         i (multipleType assumptions) metrics,
       baseCase = calculateScenarioPrice currentRevenue shares
         (js_div (base (revenueGrowth assumptions)) (Fin 100))
         (js_div (base (targetMargin assumptions)) (Fin 100))
         (base (exitMultiple assumptions)) (js_div (dilutionRate assumptions) (Fin 100))
         i (multipleType assumptions) metrics,
       bullCase = calculateScenarioPrice currentRevenue shares
         (js_div (bull (revenueGrowth assumptions)) (Fin 100))
         (js_div (bull (targetMargin assumptions)) (Fin 100))
         (bull (exitMultiple assumptions)) (js_div (dilutionRate assumptions) (Fin 100))
         i (multipleType assumptions) metrics \<rparr>"

text \<open>
  The loop \<open>for (let i = 1; i <= bound; i++) projections.push(entry(i))\<close>, with the array
  built so far as accumulator. The counter is a number and the loop ends when \<open>i <= bound\<close>
  is false; for the bound \<open>Infinity\<close> that never happens, so the loop is a partial function:
  \<open>None\<close> stands for not returning.
\<close>

partial_function (option) projectionLoop ::
  "(number \<Rightarrow> PriceProjection) \<Rightarrow> number \<Rightarrow> number \<Rightarrow> PriceProjection list
     \<Rightarrow> PriceProjection list option" where
  "projectionLoop entry bound i projections =
     (if js_le i bound
      then projectionLoop entry bound (js_add i (Fin 1)) (projections @ [entry i])
      else Some projections)"

definition calculateProjections ::
  "FinancialMetrics \<Rightarrow> ProjectionAssumptions \<Rightarrow> number \<Rightarrow> PriceProjection list option" where
  "calculateProjections metrics assumptions currentYear =
     (let currentRevenue = js_or (revenue metrics) (Fin 0);
          shares = js_or (sharesOutstanding metrics) (Fin 1)
      in projectionLoop (projectionEntry currentRevenue shares metrics assumptions currentYear)
           (years assumptions) (Fin 1) [])"

section \<open>Default assumptions (components/PricePredictor.tsx)\<close>

text \<open>
  The initial state of the assumptions form. Only the P/E entry of \<open>currentMultiples\<close> is
  read by it.
\<close>

definition currentMultiples_pe :: "FinancialMetrics \<Rightarrow> number" where
  "currentMultiples_pe metrics = js_or (peRatio metrics) (Fin 20)"

definition currentMargin :: "FinancialMetrics \<Rightarrow> number" where
  "currentMargin metrics = js_nullish (netMargin metrics) (Fin 10)"

definition marginSpread :: "FinancialMetrics \<Rightarrow> number" where
  "marginSpread metrics =
     Math_max (js_mul (Math_abs (currentMargin metrics)) (Fin (25 / 100))) (Fin 5)"

definition initialAssumptions :: "FinancialMetrics \<Rightarrow> ProjectionAssumptions" where
  "initialAssumptions metrics =
     \<lparr> revenueGrowth = \<lparr> bear = Fin 5, base = Fin 10, bull = Fin 18 \<rparr>,
       targetMargin = \<lparr> bear = js_sub (currentMargin metrics) (marginSpread metrics),
                        base = currentMargin metrics,
                        bull = js_add (currentMargin metrics) (marginSpread metrics) \<rparr>,
       exitMultiple = \<lparr> bear = js_mul (currentMultiples_pe metrics) (Fin (7 / 10)),
                        base = currentMultiples_pe metrics,
                        bull = js_mul (currentMultiples_pe metrics) (Fin (13 / 10)) \<rparr>,
       multipleType = Pe,
       dilutionRate = Fin 1,
       years = Fin 5 \<rparr>"

section \<open>The formulas of the specification\<close>

text \<open>
  The equity value per methodology as the specification's table gives it, over the reals,
  with net debt taken as \<open>0\<close> when it is unknown, and the price derived from it.
\<close>

definition spec_equityValue :: "MultipleType \<Rightarrow> real \<Rightarrow> real \<Rightarrow> real \<Rightarrow> real \<Rightarrow> real" where
  "spec_equityValue mt rv tm em nd =
     (case mt of
        Pe \<Rightarrow> rv * tm * em
      | EvEbit \<Rightarrow> rv * (tm * (13 / 10)) * em - nd
      | EvEbitda \<Rightarrow> rv * (tm * (13 / 10)) * (12 / 10) * em - nd
      | EvRevenue \<Rightarrow> rv * em - nd
      | EvFcf \<Rightarrow> rv * tm * em - nd)"

definition spec_netDebt :: "real option \<Rightarrow> real" where
  "spec_netDebt nd = (case nd of None \<Rightarrow> 0 | Some d \<Rightarrow> d)"

definition spec_fairValuePrice ::
  "MultipleType \<Rightarrow> real \<Rightarrow> real \<Rightarrow> real \<Rightarrow> real \<Rightarrow> real option \<Rightarrow> number" where
  "spec_fairValuePrice mt rv shares tm em nd =
     Math_max (Fin 0)
       (js_div (Fin (spec_equityValue mt rv tm em (spec_netDebt nd))) (Fin shares))"

text \<open>
  The default margins as the specification words them: centred on the current net margin
  (\<open>10\<close> when unknown), with an additive spread of \<open>max(|margin| * 0.25, 5)\<close> points.
\<close>

definition spec_currentMargin :: "real option \<Rightarrow> real" where
  "spec_currentMargin nm = (case nm of None \<Rightarrow> 10 | Some v \<Rightarrow> v)"

definition spec_marginSpread :: "real \<Rightarrow> real" where
  "spec_marginSpread c = max (\<bar>c\<bar> * (25 / 100)) 5"

section \<open>Finite inputs, the projection of the specification, sample data\<close>

fun is_finite :: "number \<Rightarrow> bool" where
  "is_finite (Fin a) = True"
| "is_finite PInf = False"
| "is_finite NInf = False"
| "is_finite NaN = False"

text \<open>The real value of a finite number.\<close>

fun value_of :: "number \<Rightarrow> real" where
  "value_of (Fin a) = a"
| "value_of PInf = 0"
| "value_of NInf = 0"
| "value_of NaN = 0"








text \<open>A snapshot in which every field is unknown, and one with a few fields known.\<close>

definition unknownMetrics :: FinancialMetrics where
  "unknownMetrics =
     \<lparr> peRatio = None, forwardPE = None, pegRatio = None, priceToSales = None,
       priceToBook = None, evToEbitda = None, evToEbit = None, evToRevenue = None,
       grossMargin = None, operatingMargin = None, netMargin = None, roe = None, roa = None,
       revenue = None, netIncome = None, ebitda = None, ebit = None, eps = None,
       freeCashFlow = None, totalCash = None, totalDebt = None, netDebt = None,
       sharesOutstanding = None, enterpriseValue = None \<rparr>"

definition sampleMetrics :: FinancialMetrics where
  "sampleMetrics =
     unknownMetrics \<lparr> revenue := Some (Fin 1000), netDebt := Some (Fin 200),
                      sharesOutstanding := Some (Fin 100) \<rparr>"

section \<open>Arithmetic on finite numbers\<close>

lemma Math_pow_int: "0 \<le> i \<Longrightarrow> Math_pow (Fin x) (Fin (of_int i)) = Fin (x ^ nat i)"
  by (auto simp: is_integral_def)

lemma Math_pow_nat: "Math_pow (Fin x) (Fin (of_nat n)) = Fin (x ^ n)"
  using Math_pow_int [of "int n" x] by simp

lemma js_sub_zero: "js_sub a (Fin 0) = a"
  by (cases a) (simp_all add: js_sub_def)

lemma js_sub_Fin: "js_sub (Fin a) (Fin b) = Fin (a - b)"
  by (simp add: js_sub_def)

lemma is_finiteE: "is_finite v \<Longrightarrow> v = Fin (value_of v)"
  by (cases v) simp_all

lemma js_or_zero_finite: "js_or (map_option Fin nd) (Fin 0) = Fin (spec_netDebt nd)"
  by (cases nd) (simp_all add: spec_netDebt_def)




section \<open>The loop\<close>

text \<open>For a finite bound the loop returns, after one round for each integer up to it.\<close>

lemma projectionLoop_finite:
  "projectionLoop f (Fin y) (Fin (of_int k)) acc =
     Some (acc @ map (\<lambda>j. f (Fin (of_int j))) [k..\<lfloor>y\<rfloor>])"
proof (induction "nat (\<lfloor>y\<rfloor> + 1 - k)" arbitrary: k acc)
  case 0
  then have gt: "\<not> k \<le> \<lfloor>y\<rfloor>" by simp
  have "(of_int k \<le> y) = (k \<le> \<lfloor>y\<rfloor>)"
    by (rule le_floor_iff [symmetric])
  with gt have stop: "\<not> js_le (Fin (of_int k)) (Fin y)"
    by simp
  from gt have "[k..\<lfloor>y\<rfloor>] = []"
    by simp
  with stop show ?case
    by (subst projectionLoop.simps) simp
next
  case (Suc n)
  then have le: "k \<le> \<lfloor>y\<rfloor>" by simp
  have "(of_int k \<le> y) = (k \<le> \<lfloor>y\<rfloor>)"
    by (rule le_floor_iff [symmetric])
  with le have go: "js_le (Fin (of_int k)) (Fin y)"
    by simp
  have next_i: "js_add (Fin (of_int k)) (Fin 1) = Fin (of_int (k + 1))"
    by simp
  from Suc(2) have "n = nat (\<lfloor>y\<rfloor> + 1 - (k + 1))" by simp
  then have IH: "projectionLoop f (Fin y) (Fin (of_int (k + 1))) (acc @ [f (Fin (of_int k))]) =
      Some ((acc @ [f (Fin (of_int k))]) @ map (\<lambda>j. f (Fin (of_int j))) [k + 1..\<lfloor>y\<rfloor>])"
    by (rule Suc(1))
  have "projectionLoop f (Fin y) (Fin (of_int k)) acc =
          projectionLoop f (Fin y) (Fin (of_int (k + 1))) (acc @ [f (Fin (of_int k))])"
    using go by (subst projectionLoop.simps) (simp only: next_i if_True)
  also note IH
  also have "(acc @ [f (Fin (of_int k))]) @ map (\<lambda>j. f (Fin (of_int j))) [k + 1..\<lfloor>y\<rfloor>] =
               acc @ map (\<lambda>j. f (Fin (of_int j))) (k # [k + 1..\<lfloor>y\<rfloor>])"
    by simp
  also have "k # [k + 1..\<lfloor>y\<rfloor>] = [k..\<lfloor>y\<rfloor>]"
    using le by (rule upto_rec1 [symmetric])
  finally show ?case .
qed

text \<open>For the bound \<open>Infinity\<close> the loop never returns.\<close>

lemma projectionLoop_diverges:
  assumes "projectionLoop f b i acc = Some ps"
  shows "b = PInf \<longrightarrow> \<not> is_finite i"
proof (rule projectionLoop.raw_induct
         [OF _ assms, where P = "\<lambda>f b i acc ps. b = PInf \<longrightarrow> \<not> is_finite i"], goal_cases)
  case (1 loop entry bound i projections y)
  show ?case
  proof (intro impI notI)
    assume b: "bound = PInf" and "is_finite i"
    then obtain r where i: "i = Fin r"
      using is_finiteE by blast
    from 1(2) have "loop entry PInf (Fin (r + 1)) (projections @ [entry (Fin r)]) = Some y"
      by (simp add: i b)
    then have "PInf = PInf \<longrightarrow> \<not> is_finite (Fin (r + 1))"
      by (rule 1(1))
    then show False by simp
  qed
qed

lemma projectionLoop_infinite: "projectionLoop f PInf (Fin k) acc = None"
proof (cases "projectionLoop f PInf (Fin k) acc")
  case None
  then show ?thesis .
next
  case (Some ps)
  then have "PInf = PInf \<longrightarrow> \<not> is_finite (Fin k)"
    by (rule projectionLoop_diverges)
  then show ?thesis by simp
qed


lemma calculateProjections_finite:
  assumes "years a = Fin y"
  shows "calculateProjections m a cy =
     Some (map (\<lambda>j. projectionEntry (js_or (revenue m) (Fin 0))
                       (js_or (sharesOutstanding m) (Fin 1)) m a cy (Fin (of_int j)))
               [1..\<lfloor>y\<rfloor>])"
proof -
  have "projectionLoop f (Fin y) (Fin 1) [] = Some (map (\<lambda>j. f (Fin (of_int j))) [1..\<lfloor>y\<rfloor>])"
    for f :: "number \<Rightarrow> PriceProjection"
    using projectionLoop_finite [of f y 1 "[]"] by simp
  then show ?thesis
    by (simp add: calculateProjections_def assms)
qed

lemma calculateProjections_infinite:
  "years a = PInf \<Longrightarrow> calculateProjections m a cy = None"
  by (simp add: calculateProjections_def projectionLoop_infinite)

section \<open>Fair value and scenario price\<close>

lemma fairValueSwitch_finite:
  assumes "netDebt m = map_option Fin nd"
  shows "fairValueSwitch mt (Fin r) (Fin s) (Fin t) (Fin x) m =
           js_div (Fin (spec_equityValue mt r t x (spec_netDebt nd))) (Fin s)"
  using assms
  by (cases mt)
     (simp_all add: spec_equityValue_def js_or_zero_finite js_sub_Fin Let_def del: js_div.simps)

lemma fairValuePrice_finite:
  assumes "netDebt m = map_option Fin nd"
  shows "calculateFairValuePrice (Fin r) (Fin s) (Fin t) (Fin x) mt m =
           spec_fairValuePrice mt r s t x nd"
  by (simp add: calculateFairValuePrice_def spec_fairValuePrice_def
        fairValueSwitch_finite [OF assms])

lemma spec_fairValuePrice_real:
  "s \<noteq> 0 \<Longrightarrow> spec_fairValuePrice mt r s t x nd =
     Fin (max 0 (spec_equityValue mt r t x (spec_netDebt nd) / s))"
  by (simp add: spec_fairValuePrice_def)

lemma scenario_as_fairValue:
  "calculateScenarioPrice rv sh g t x d y mt m =
     calculateFairValuePrice (projectedRevenue rv g y) (projectedShares sh d y) t x mt m"
  by (cases mt) (simp_all add: calculateScenarioPrice_def calculateFairValuePrice_def Let_def)

lemma projectedRevenue_finite:
  "projectedRevenue (Fin r) (Fin g) (Fin (of_nat i)) = Fin (r * (1 + g) ^ i)"
  by (simp add: projectedRevenue_def Math_pow_nat del: Math_pow.simps)

lemma projectedShares_finite:
  "projectedShares (Fin s) (Fin d) (Fin (of_nat i)) = Fin (s * (1 + d) ^ i)"
  by (simp add: projectedShares_def Math_pow_nat del: Math_pow.simps)

lemma scenarioPrice_finite:
  "calculateScenarioPrice (Fin r) (Fin s) (Fin g) t x (Fin d) (Fin (of_nat i)) mt m =
     calculateFairValuePrice (Fin (r * (1 + g) ^ i)) (Fin (s * (1 + d) ^ i)) t x mt m"
  by (simp add: scenario_as_fairValue projectedRevenue_finite projectedShares_finite)




section \<open>Clamping\<close>






section \<open>Methodologies, growth rates and default margins\<close>

lemma fairValue_evFcf_pe:
  "netDebt m = None \<or> netDebt m = Some (Fin 0) \<Longrightarrow>
   calculateFairValuePrice rv sh t x EvFcf m = calculateFairValuePrice rv sh t x Pe m"
  by (auto simp: calculateFairValuePrice_def js_sub_zero)

lemma scenarioSwitch_netDebt:
  "netDebt m1 = netDebt m2 \<Longrightarrow> scenarioSwitch mt pr ps t x m1 = scenarioSwitch mt pr ps t x m2"
  by (cases mt) simp_all

lemma projectionEntry_cong:
  "netDebt m1 = netDebt m2 \<Longrightarrow> projectionEntry cr sh m1 a cy i = projectionEntry cr sh m2 a cy i"
  using scenarioSwitch_netDebt [of m1 m2]
  by (simp add: projectionEntry_def calculateScenarioPrice_def Let_def)

lemma Math_pow_pos:
  assumes "0 < x" and "0 < k"
  shows "Math_pow (Fin x) (Fin k) = Fin (x powr k)"
proof (cases "is_integral k")
  case True
  from assms(2) have "0 \<le> \<lfloor>k\<rfloor>" by simp
  with True have "k = real (nat \<lfloor>k\<rfloor>)" by (simp add: is_integral_def)
  then have "x powr k = x ^ nat \<lfloor>k\<rfloor>"
    using powr_realpow [OF assms(1), of "nat \<lfloor>k\<rfloor>"] by simp
  with assms True show ?thesis by simp
next
  case False
  with assms show ?thesis by simp
qed

lemma calculateCAGR_null_iff:
  "(calculateCAGR (Some (Fin s)) (Some (Fin e)) (Fin y) = None) = (s \<le> 0 \<or> e = 0 \<or> y \<le> 0)"
  by (auto simp del: Math_pow.simps js_div.simps)

lemma calculateCAGR_value:
  assumes "\<not> (s \<le> 0 \<or> e = 0 \<or> y \<le> 0)"
  shows "calculateCAGR (Some (Fin s)) (Some (Fin e)) (Fin y) =
           Some (js_mul (js_sub (Math_pow (Fin (e / s)) (Fin (1 / y))) (Fin 1)) (Fin 100))"
  using assms by (simp del: Math_pow.simps)

lemma calculateCAGR_pos:
  assumes "0 < s" and "0 < e" and "0 < y"
  shows "calculateCAGR (Some (Fin s)) (Some (Fin e)) (Fin y) =
           Some (Fin (((e / s) powr (1 / y) - 1) * 100))"
proof -
  from assms have "0 < e / s" and "0 < 1 / y" by simp_all
  then have "Math_pow (Fin (e / s)) (Fin (1 / y)) = Fin ((e / s) powr (1 / y))"
    by (rule Math_pow_pos)
  with assms show ?thesis
    by (simp add: calculateCAGR_value js_sub_Fin del: Math_pow.simps)
qed

lemma calculateCAGR_None_end: "calculateCAGR start None y = None"
  by (cases start) simp_all

lemma root_power:
  assumes "0 < a" and "0 < n"
  shows "(a ^ n) powr (1 / real n) = a"
proof -
  have "(a ^ n) powr (1 / real n) = (a powr real n) powr (1 / real n)"
    by (simp only: powr_realpow [OF assms(1)])
  also have "\<dots> = a powr (real n * (1 / real n))"
    by (rule powr_powr)
  also have "real n * (1 / real n) = 1"
    using assms(2) by simp
  also have "a powr 1 = a"
    using assms(1) by simp
  finally show ?thesis .
qed

lemma root5: "((161051 / 100000 :: real) powr (1 / 5) - 1) * 100 = 10"
proof -
  have e: "(161051 / 100000 :: real) = (11 / 10) ^ 5"
    by (simp add: power_divide)
  have "((11 / 10 :: real) ^ 5) powr (1 / real 5) = 11 / 10"
    by (rule root_power) simp_all
  then have "((11 / 10 :: real) ^ 5) powr (1 / 5) = 11 / 10"
    by simp
  then show ?thesis
    unfolding e by simp
qed

section \<open>Growth\<close>

lemma growth_factor_mono:
  assumes "- 100 \<le> (g1::real)" and "g1 < g2"
  shows "0 \<le> (1 + g1 / 100) ^ i" and "(1 + g1 / 100) ^ i \<le> (1 + g2 / 100) ^ (i::nat)"
proof -
  from assms(1) have nonneg: "(0::real) \<le> 1 + g1 / 100" by simp
  then show "0 \<le> (1 + g1 / 100) ^ i" by simp
  from assms(2) have "1 + g1 / 100 \<le> 1 + g2 / 100" by simp
  with nonneg show "(1 + g1 / 100) ^ i \<le> (1 + g2 / 100) ^ i"
    by (rule power_mono [rotated])
qed

lemma pe_price_not_lower:
  assumes "0 \<le> R1" and "R1 \<le> (R2::real)"
  shows "\<not> js_lt (calculateFairValuePrice (Fin R2) (Fin S) (Fin t) (Fin x) Pe m)
                 (calculateFairValuePrice (Fin R1) (Fin S) (Fin t) (Fin x) Pe m)"
proof (cases "S = 0")
  case False
  have le: "max 0 (R1 * (t * x / S)) \<le> max 0 (R2 * (t * x / S))"
  proof (cases "0 \<le> t * x / S")
    case True
    with assms(2) have "R1 * (t * x / S) \<le> R2 * (t * x / S)"
      by (rule mult_right_mono)
    then show ?thesis by simp
  next
    case False
    then have c: "t * x / S \<le> 0" by simp
    from assms have "0 \<le> R2" by simp
    then have "R2 * (t * x / S) \<le> 0"
      using c by (rule mult_nonneg_nonpos)
    moreover have "R1 * (t * x / S) \<le> 0"
      using assms(1) c by (rule mult_nonneg_nonpos)
    ultimately show ?thesis by simp
  qed
  have price: "calculateFairValuePrice (Fin R) (Fin S) (Fin t) (Fin x) Pe m =
                 Fin (max 0 (R * (t * x / S)))" for R
    using False by (simp add: calculateFairValuePrice_def mult.assoc)
  show ?thesis
    unfolding price using le by (simp only: js_lt.simps not_less)
next
  case True
  consider "0 < t * x" | "t * x = 0" | "t * x < 0" by linarith
  then show ?thesis
  proof cases
    case 1
    with assms True show ?thesis
      by (auto simp: calculateFairValuePrice_def mult.assoc zero_less_mult_iff)
  next
    case 2
    with True show ?thesis
      by (auto simp: calculateFairValuePrice_def mult.assoc)
  next
    case 3
    with assms True show ?thesis
      by (auto simp: calculateFairValuePrice_def mult.assoc zero_less_mult_iff)
  qed
qed

lemma initial_targetMargin:
  "targetMargin (initialAssumptions (m\<lparr>netMargin := map_option Fin nm\<rparr>)) =
     \<lparr> bear = Fin (spec_currentMargin nm - spec_marginSpread (spec_currentMargin nm)),
       base = Fin (spec_currentMargin nm),
       bull = Fin (spec_currentMargin nm + spec_marginSpread (spec_currentMargin nm)) \<rparr>"
  by (cases nm)
     (simp_all add: initialAssumptions_def currentMargin_def marginSpread_def
        spec_currentMargin_def spec_marginSpread_def js_sub_Fin)

lemma spec_marginSpread_pos: "0 < spec_marginSpread c"
  by (simp add: spec_marginSpread_def)

section \<open>Properties of the valuation engine\<close>

text \<open>
  The statements below that speak of all numbers (clamping, the scenario price as a fair
  value, EV/FCF against P/E, the fields read) use nothing of finite arithmetic but that its
  result is a number; those that speak of finite inputs give the value in exact arithmetic.
\<close>

text \<open>
  Claim C1. For finite revenue, share count, target margin and exit multiple, and a net debt
  that is finite or unknown, \<open>calculateFairValuePrice\<close> returns
  \<open>max(0, equityValue / sharesOutstanding)\<close>, where the equity value is the formula of the
  methodology in the specification's table and an unknown net debt counts as \<open>0\<close>. For a
  non-zero share count this is the real number \<open>max 0 (equityValue / shares)\<close>.
\<close>

theorem calculateFairValuePrice_formula:
  assumes "netDebt m = map_option Fin nd"
  shows "calculateFairValuePrice (Fin r) (Fin s) (Fin t) (Fin x) mt m =
           spec_fairValuePrice mt r s t x nd
       \<and> (s \<noteq> 0 \<longrightarrow> calculateFairValuePrice (Fin r) (Fin s) (Fin t) (Fin x) mt m =
             Fin (max 0 (spec_equityValue mt r t x (spec_netDebt nd) / s)))"
proof -
  have code: "calculateFairValuePrice (Fin r) (Fin s) (Fin t) (Fin x) mt m =
                spec_fairValuePrice mt r s t x nd"
    using assms by (rule fairValuePrice_finite)
  have "spec_fairValuePrice mt r s t x nd =
          Fin (max 0 (spec_equityValue mt r t x (spec_netDebt nd) / s))" if "s \<noteq> 0"
    using that by (rule spec_fairValuePrice_real)
  with code show ?thesis by simp
qed

text \<open>
  The EV/Revenue example of the specification: revenue 1000, multiple 3, net debt 200 and
  100 shares give the price 28.
\<close>

theorem calculateFairValuePrice_formula_witness:
  "netDebt sampleMetrics = map_option Fin (Some 200) \<and> (100::real) \<noteq> 0
   \<and> calculateFairValuePrice (Fin 1000) (Fin 100) (Fin (1 / 10)) (Fin 3) EvRevenue sampleMetrics
       = Fin 28"
proof -
  have nd: "netDebt sampleMetrics = map_option Fin (Some 200)"
    by (simp add: sampleMetrics_def unknownMetrics_def)
  show ?thesis
    using calculateFairValuePrice_formula [OF nd, of 1000 100 "1 / 10" 3 EvRevenue]
    by (simp add: nd spec_fairValuePrice_def spec_equityValue_def spec_netDebt_def)
qed

text \<open>
  Claim C2. For a horizon of \<open>n\<close> years (\<open>assumptions.years\<close> a whole number \<open>n \<ge> 0\<close>) and
  every snapshot, all assumptions and every current year, \<open>calculateProjections\<close> returns
  a sequence of exactly \<open>n\<close> records whose years are \<open>currentYear + 1\<close>,
  \<open>currentYear + 2\<close>, ..., \<open>currentYear + n\<close> in that order.
\<close>

theorem calculateProjections_years:
  assumes "years a = Fin (of_nat n)"
  shows "map_option length (calculateProjections m a (Fin c)) = Some n
       \<and> map_option (map year) (calculateProjections m a (Fin c)) =
           Some (map (\<lambda>j. Fin (c + of_int j)) [1..int n])"
proof -
  have "calculateProjections m a (Fin c) =
          Some (map (\<lambda>j. projectionEntry (js_or (revenue m) (Fin 0))
                            (js_or (sharesOutstanding m) (Fin 1)) m a (Fin c) (Fin (of_int j)))
                    [1..\<lfloor>real n\<rfloor>])"
    using assms by (rule calculateProjections_finite)
  moreover have "\<lfloor>real n\<rfloor> = int n"
    by simp
  ultimately show ?thesis
    by (simp add: projectionEntry_def comp_def)
qed

text \<open>The default horizon of 5 years from 2024: the years 2025 to 2029.\<close>

theorem calculateProjections_years_witness:
  "years (initialAssumptions sampleMetrics) = Fin (of_nat 5)
   \<and> map_option length
        (calculateProjections sampleMetrics (initialAssumptions sampleMetrics) (Fin 2024)) = Some 5
   \<and> map_option (map year)
        (calculateProjections sampleMetrics (initialAssumptions sampleMetrics) (Fin 2024)) =
       Some [Fin 2025, Fin 2026, Fin 2027, Fin 2028, Fin 2029]"
proof -
  have y: "years (initialAssumptions sampleMetrics) = Fin (of_nat 5)"
    by (simp add: initialAssumptions_def)
  have "[1..int 5] = [1, 2, 3, 4, 5]"
    by (simp add: upto_rec1)
  then show ?thesis
    using calculateProjections_years [OF y, of sampleMetrics 2024] y by simp
qed

text \<open>
  Claim C3, as amended. \<open>calculateCAGR\<close> returns null when the start or the end price is null
  or undefined; for finite numbers it returns null exactly when the start price is \<open>\<le> 0\<close>, the
  end price is \<open>0\<close>, or the number of years is \<open>\<le> 0\<close>. In every other case it returns
  \<open>(Math.pow(end / start, 1 / years) - 1) * 100\<close>, which for positive prices is the real number
  \<open>((end / start) powr (1 / years) - 1) * 100\<close>.
\<close>

theorem calculateCAGR_cases:
  "calculateCAGR None end' y' = None
   \<and> calculateCAGR start None y' = None
   \<and> (calculateCAGR (Some (Fin s)) (Some (Fin e)) (Fin y) = None) = (s \<le> 0 \<or> e = 0 \<or> y \<le> 0)
   \<and> (\<not> (s \<le> 0 \<or> e = 0 \<or> y \<le> 0) \<longrightarrow>
        calculateCAGR (Some (Fin s)) (Some (Fin e)) (Fin y) =
          Some (js_mul (js_sub (Math_pow (Fin (e / s)) (Fin (1 / y))) (Fin 1)) (Fin 100)))
   \<and> (0 < s \<and> 0 < e \<and> 0 < y \<longrightarrow>
        calculateCAGR (Some (Fin s)) (Some (Fin e)) (Fin y) =
          Some (Fin (((e / s) powr (1 / y) - 1) * 100)))"
  using calculateCAGR_null_iff [of s e y] calculateCAGR_value [of s e y]
    calculateCAGR_pos [of s e y] calculateCAGR_None_end [of start y']
  by simp

text \<open>
  The round trip of the specification: from 100 to \<open>100 * 1.1 ^ 5 = 161.051\<close> in 5 years is
  a growth of 10 percent a year.
\<close>

theorem calculateCAGR_cases_witness:
  "(0::real) < 100 \<and> (0::real) < 161051 / 1000 \<and> (0::real) < 5
   \<and> calculateCAGR (Some (Fin 100)) (Some (Fin (161051 / 1000))) (Fin 5) = Some (Fin 10)"
  using calculateCAGR_cases [of None NaN None 100 "161051 / 1000" 5] root5
  by simp

text \<open>
  A final price of \<open>0\<close> is falsy, so the guard \<open>!end\<close> returns null although the start price
  and the number of years are positive and the final price is not null.
\<close>

theorem calculateCAGR_zero_final_price:
  "\<not> js_le (Fin 100) (Fin 0) \<and> \<not> js_le (Fin 5) (Fin 0)
   \<and> calculateCAGR (Some (Fin 100)) (Some (Fin 0)) (Fin 5) = None"
  by simp





text \<open>
  Claim C5. For all inputs and every methodology, \<open>calculateScenarioPrice\<close> is
  \<open>calculateFairValuePrice\<close> applied to the compounded revenue and share count; for finite
  inputs and a year count \<open>i\<close> these are \<open>revenue * (1 + g) ^ i\<close> and \<open>shares * (1 + d) ^ i\<close>.
\<close>

theorem calculateScenarioPrice_refines:
  "calculateScenarioPrice rv sh g t x d y mt m =
     calculateFairValuePrice (js_mul rv (Math_pow (js_add (Fin 1) g) y))
                             (js_mul sh (Math_pow (js_add (Fin 1) d) y)) t x mt m
   \<and> calculateScenarioPrice (Fin r) (Fin s) (Fin g') t x (Fin d') (Fin (of_nat i)) mt m =
     calculateFairValuePrice (Fin (r * (1 + g') ^ i)) (Fin (s * (1 + d') ^ i)) t x mt m"
  using scenario_as_fairValue [of rv sh g t x d y mt m]
    scenarioPrice_finite [of r s g' t x d' i mt m]
  by (simp add: projectedRevenue_def projectedShares_def)


text \<open>
  Claim C6, as amended. Holding target margin and exit multiple fixed, for finite inputs, a
  current revenue \<open>\<ge> 0\<close>, growth rates of at least \<open>-100\<close> percent and every whole-number
  year, a strictly larger growth rate never yields a smaller projected revenue
  \<open>currentRevenue * (1 + growthRate / 100) ^ i\<close>, and under the P/E methodology never a
  smaller price. (It need not yield a strictly larger one: the revenue may be \<open>0\<close>, the price
  may be clamped to \<open>0\<close>, and two growth factors may round to the same number.)
\<close>

theorem growth_never_lowers:
  assumes "0 \<le> r" and "- 100 \<le> g1" and "g1 < g2"
  shows "\<not> js_lt (projectedRevenue (Fin r) (js_div (Fin g2) (Fin 100)) (Fin (of_nat i)))
                 (projectedRevenue (Fin r) (js_div (Fin g1) (Fin 100)) (Fin (of_nat i)))
       \<and> \<not> js_lt (calculateScenarioPrice (Fin r) (Fin s) (js_div (Fin g2) (Fin 100)) (Fin t)
                     (Fin x) (Fin d) (Fin (of_nat i)) Pe m)
                  (calculateScenarioPrice (Fin r) (Fin s) (js_div (Fin g1) (Fin 100)) (Fin t)
                     (Fin x) (Fin d) (Fin (of_nat i)) Pe m)"
proof -
  let ?R1 = "r * (1 + g1 / 100) ^ i" and ?R2 = "r * (1 + g2 / 100) ^ i"
  have le: "?R1 \<le> ?R2"
    using assms(1) growth_factor_mono(2) [OF assms(2,3)] by (rule mult_left_mono [rotated])
  have nonneg: "0 \<le> ?R1"
    using assms(1) growth_factor_mono(1) [OF assms(2,3)] by (rule mult_nonneg_nonneg)
  have "\<not> js_lt (projectedRevenue (Fin r) (js_div (Fin g2) (Fin 100)) (Fin (of_nat i)))
                (projectedRevenue (Fin r) (js_div (Fin g1) (Fin 100)) (Fin (of_nat i)))"
    using le by (simp add: projectedRevenue_finite not_less)
  moreover have "\<not> js_lt (calculateScenarioPrice (Fin r) (Fin s) (js_div (Fin g2) (Fin 100))
                            (Fin t) (Fin x) (Fin d) (Fin (of_nat i)) Pe m)
                         (calculateScenarioPrice (Fin r) (Fin s) (js_div (Fin g1) (Fin 100))
                            (Fin t) (Fin x) (Fin d) (Fin (of_nat i)) Pe m)"
    using pe_price_not_lower [OF nonneg le, of "s * (1 + d) ^ i" t x m]
    by (simp add: scenarioPrice_finite)
  ultimately show ?thesis by blast
qed

theorem growth_never_lowers_witness:
  "(0::real) \<le> 1000 \<and> (- 100 :: real) \<le> 5 \<and> (5::real) < 10
   \<and> \<not> js_lt (projectedRevenue (Fin 1000) (js_div (Fin 10) (Fin 100)) (Fin (of_nat 2)))
              (projectedRevenue (Fin 1000) (js_div (Fin 5) (Fin 100)) (Fin (of_nat 2)))
   \<and> \<not> js_lt (calculateScenarioPrice (Fin 1000) (Fin 100) (js_div (Fin 10) (Fin 100))
                 (Fin (1 / 10)) (Fin 20) (Fin (1 / 100)) (Fin (of_nat 2)) Pe sampleMetrics)
              (calculateScenarioPrice (Fin 1000) (Fin 100) (js_div (Fin 5) (Fin 100))
                 (Fin (1 / 10)) (Fin 20) (Fin (1 / 100)) (Fin (of_nat 2)) Pe sampleMetrics)"
  using growth_never_lowers [of 1000 5 10 2 100 "1 / 10" 20 "1 / 100" sampleMetrics]
  by simp

text \<open>
  With a current revenue of \<open>0\<close> (the substitute for an unknown revenue) the projected revenue
  is \<open>0\<close> for every growth rate; with a negative target margin the P/E price is clamped to
  \<open>0\<close> for both growth rates.
\<close>

theorem growth_not_monotone:
  "\<not> js_lt (projectedRevenue (Fin 0) (js_div (Fin 5) (Fin 100)) (Fin 1))
            (projectedRevenue (Fin 0) (js_div (Fin 10) (Fin 100)) (Fin 1))
   \<and> \<not> js_lt (calculateScenarioPrice (Fin 1000) (Fin 100) (js_div (Fin 5) (Fin 100))
                 (Fin (- 1 / 10)) (Fin 20) (Fin (1 / 100)) (Fin 1) Pe sampleMetrics)
              (calculateScenarioPrice (Fin 1000) (Fin 100) (js_div (Fin 10) (Fin 100))
                 (Fin (- 1 / 10)) (Fin 20) (Fin (1 / 100)) (Fin 1) Pe sampleMetrics)"
  by (simp add: calculateScenarioPrice_def projectedRevenue_def projectedShares_def
        is_integral_def)

text \<open>
  Claim C7. The default target margins seeded from a snapshot are centred on the current
  net margin (\<open>10\<close> when it is unknown), the bear margin lying
  \<open>max(|margin| * 0.25, 5)\<close> points below and the bull margin as much above; so for every
  finite net margin, negative ones included, bear \<open><\<close> base \<open><\<close> bull.
\<close>

theorem default_margins_ordered:
  "targetMargin (initialAssumptions (m\<lparr>netMargin := map_option Fin nm\<rparr>)) =
     \<lparr> bear = Fin (spec_currentMargin nm - spec_marginSpread (spec_currentMargin nm)),
       base = Fin (spec_currentMargin nm),
       bull = Fin (spec_currentMargin nm + spec_marginSpread (spec_currentMargin nm)) \<rparr>
   \<and> js_lt (bear (targetMargin (initialAssumptions (m\<lparr>netMargin := map_option Fin nm\<rparr>))))
            (base (targetMargin (initialAssumptions (m\<lparr>netMargin := map_option Fin nm\<rparr>))))
   \<and> js_lt (base (targetMargin (initialAssumptions (m\<lparr>netMargin := map_option Fin nm\<rparr>))))
            (bull (targetMargin (initialAssumptions (m\<lparr>netMargin := map_option Fin nm\<rparr>))))"
  using spec_marginSpread_pos [of "spec_currentMargin nm"]
  by (simp add: initial_targetMargin)



text \<open>
  Claim C9. Two snapshots that agree on revenue, shares outstanding and net debt give the
  same projections, for all assumptions and every current year.
\<close>

theorem calculateProjections_reads_three_fields:
  assumes "revenue m1 = revenue m2" and "sharesOutstanding m1 = sharesOutstanding m2"
    and "netDebt m1 = netDebt m2"
  shows "calculateProjections m1 a cy = calculateProjections m2 a cy"
proof -
  have "projectionEntry cr sh m1 a cy = projectionEntry cr sh m2 a cy" for cr sh
    using projectionEntry_cong [OF assms(3)] by (rule ext)
  with assms(1,2) show ?thesis
    by (simp add: calculateProjections_def)
qed

theorem calculateProjections_reads_three_fields_witness:
  "revenue sampleMetrics = revenue (sampleMetrics\<lparr>peRatio := Some (Fin 30), netMargin := Some (Fin 12)\<rparr>)
   \<and> sharesOutstanding sampleMetrics =
       sharesOutstanding (sampleMetrics\<lparr>peRatio := Some (Fin 30), netMargin := Some (Fin 12)\<rparr>)
   \<and> netDebt sampleMetrics = netDebt (sampleMetrics\<lparr>peRatio := Some (Fin 30), netMargin := Some (Fin 12)\<rparr>)
   \<and> sampleMetrics \<noteq> sampleMetrics\<lparr>peRatio := Some (Fin 30), netMargin := Some (Fin 12)\<rparr>
   \<and> calculateProjections sampleMetrics (initialAssumptions sampleMetrics) (Fin 2024) =
       calculateProjections (sampleMetrics\<lparr>peRatio := Some (Fin 30), netMargin := Some (Fin 12)\<rparr>)
         (initialAssumptions sampleMetrics) (Fin 2024)"
proof -
  have ne: "sampleMetrics \<noteq> sampleMetrics\<lparr>peRatio := Some (Fin 30), netMargin := Some (Fin 12)\<rparr>"
  proof
    assume "sampleMetrics = sampleMetrics\<lparr>peRatio := Some (Fin 30), netMargin := Some (Fin 12)\<rparr>"
    then have "peRatio sampleMetrics =
                 peRatio (sampleMetrics\<lparr>peRatio := Some (Fin 30), netMargin := Some (Fin 12)\<rparr>)"
      by simp
    then show False by (simp add: sampleMetrics_def unknownMetrics_def)
  qed
  show ?thesis
    using calculateProjections_reads_three_fields
      [of sampleMetrics "sampleMetrics\<lparr>peRatio := Some (Fin 30), netMargin := Some (Fin 12)\<rparr>"
          "initialAssumptions sampleMetrics" "Fin 2024"] ne
    by simp
qed

text \<open>
  Claim C10. When the net debt is unknown or \<open>0\<close>, the EV/FCF methodology gives the same
  fair-value price and the same scenario price as the P/E methodology, for all other inputs.
\<close>

theorem evFcf_equals_pe_without_net_debt:
  assumes "netDebt m = None \<or> netDebt m = Some (Fin 0)"
  shows "calculateFairValuePrice rv sh t x EvFcf m = calculateFairValuePrice rv sh t x Pe m
       \<and> calculateScenarioPrice rv sh g t x d y EvFcf m =
         calculateScenarioPrice rv sh g t x d y Pe m"
  using assms by (simp add: scenario_as_fairValue fairValue_evFcf_pe)

theorem evFcf_equals_pe_without_net_debt_witness:
  "(netDebt unknownMetrics = None \<or> netDebt unknownMetrics = Some (Fin 0))
   \<and> calculateFairValuePrice (Fin 1000) (Fin 100) (Fin (1 / 10)) (Fin 20) EvFcf unknownMetrics =
     calculateFairValuePrice (Fin 1000) (Fin 100) (Fin (1 / 10)) (Fin 20) Pe unknownMetrics
   \<and> calculateScenarioPrice (Fin 1000) (Fin 100) (Fin (1 / 10)) (Fin (1 / 10)) (Fin 20)
        (Fin (1 / 100)) (Fin 5) EvFcf unknownMetrics =
     calculateScenarioPrice (Fin 1000) (Fin 100) (Fin (1 / 10)) (Fin (1 / 10)) (Fin 20)
        (Fin (1 / 100)) (Fin 5) Pe unknownMetrics"
proof -
  have nd: "netDebt unknownMetrics = None \<or> netDebt unknownMetrics = Some (Fin 0)"
    by (simp add: unknownMetrics_def)
  show ?thesis
    using evFcf_equals_pe_without_net_debt [OF nd] nd by blast
qed

end
